theory Spec2Isabelle
  imports Complex_Main "HOL-Library.Word"
begin

unbundle bit_operations_syntax

section \<open>Playback engine: the Player component\<close>

text \<open>
  The component keeps its transport in React state (\<open>isPlaying\<close>, \<open>progress\<close>, \<open>pitch\<close>)
  and in refs (\<open>sourceNodeRef\<close>, \<open>startTimeRef\<close>, \<open>pauseTimeRef\<close>, \<open>animationFrameRef\<close>).
  Source nodes are objects that outlive the ref pointing at them (a stopped node still
  receives its \<open>ended\<close> event), so they live in an explicit store, \<open>heap\<close>, and
  \<open>sourceNodeRef\<close> holds an index into it. Of a node the model keeps what the component
  writes: its detune value, whether the completion handler is attached (\<open>onended\<close>; False
  is \<open>null\<close>), the offset handed to \<open>start\<close>, and whether \<open>stop\<close> was called; and
  \<open>finished\<close>, set once the node's \<open>ended\<close> event has been dispatched (a node gets that
  event once).

  Times are JavaScript numbers; the model takes them as reals, so the arithmetic on them
  is exact. The reading of \<open>audioContext.currentTime\<close> is an argument \<open>now\<close> of every
  operation that reads the clock.
\<close>

record AudioBufferSourceNode =
  detune :: int
  onended :: bool
  startOffset :: real
  stopped :: bool
  finished :: bool

record Player =
  duration :: real
  isPlaying :: bool
  progress :: real
  pitch :: int
  sourceNodeRef :: "nat option"
  startTimeRef :: real
  pauseTimeRef :: real
  animationFrameRef :: bool
  heap :: "AudioBufferSourceNode list"

text \<open>The component as mounted for a buffer of duration \<open>d\<close>: the initial values of
  \<open>useState\<close> and \<open>useRef\<close>. \<open>animationFrameRef\<close> is True while a frame callback is
  requested and not cancelled.\<close>

definition mount :: "real \<Rightarrow> Player" where
  "mount d = \<lparr> duration = d, isPlaying = False, progress = 0, pitch = 0,
               sourceNodeRef = None, startTimeRef = 0, pauseTimeRef = 0,
               animationFrameRef = False, heap = [] \<rparr>"

text \<open>Writing through a node reference. A reference always points at a node of the
  store; an index outside it changes nothing.\<close>

definition modify :: "nat \<Rightarrow> ('a \<Rightarrow> 'a) \<Rightarrow> 'a list \<Rightarrow> 'a list" where
  "modify n f xs = (if n < length xs then xs[n := f (xs ! n)] else xs)"

text \<open>\<open>node.onended = null; node.stop()\<close>, the first two lines of both halting paths.\<close>

definition halt :: "AudioBufferSourceNode \<Rightarrow> AudioBufferSourceNode" where
  "halt nd = nd\<lparr> onended := False, stopped := True \<rparr>"

text \<open>\<open>updateProgress\<close>: one animation-frame tick at clock reading \<open>now\<close>. The percentage
  is \<open>Math.min((elapsed / duration) * 100, 100)\<close>; another frame is requested only while
  \<open>elapsed < duration\<close> and the transport is playing. (For a duration of 0 JavaScript
  yields Infinity or NaN where HOL yields 0; the theorems below take a positive duration.)\<close>

definition updateProgress :: "real \<Rightarrow> Player \<Rightarrow> Player" where
  "updateProgress now st =
     (let elapsed = now - startTimeRef st + pauseTimeRef st;
          p = min ((elapsed / duration st) * 100) 100
      in st\<lparr> progress := p,
              animationFrameRef := (elapsed < duration st \<and> isPlaying st) \<rparr>)"

text \<open>\<open>playAudio\<close>: a fresh source with the current pitch as detune, started at the
  paused position, the clock captured, the completion handler attached. The effect on
  \<open>isPlaying\<close> then requests the first frame.\<close>

definition playAudio :: "real \<Rightarrow> Player \<Rightarrow> Player" where
  "playAudio now st =
     (let source = \<lparr> detune = pitch st, onended = True,
                     startOffset = pauseTimeRef st, stopped = False,
                     finished = False \<rparr>
      in st\<lparr> heap := heap st @ [source],
              startTimeRef := now,
              sourceNodeRef := Some (length (heap st)),
              isPlaying := True,
              animationFrameRef := True \<rparr>)"

text \<open>\<open>pauseAudio\<close>: everything is under \<open>if (sourceNodeRef.current)\<close>.\<close>

definition pauseAudio :: "real \<Rightarrow> Player \<Rightarrow> Player" where
  "pauseAudio now st =
     (case sourceNodeRef st of
        None \<Rightarrow> st
      | Some n \<Rightarrow>
          st\<lparr> heap := modify n halt (heap st),
              sourceNodeRef := None,
              pauseTimeRef := pauseTimeRef st + (now - startTimeRef st),
              isPlaying := False,
              animationFrameRef := False \<rparr>)"

text \<open>\<open>stopAudio\<close>: only the halting of the source is conditional.\<close>

definition stopAudio :: "Player \<Rightarrow> Player" where
  "stopAudio st =
     (let st1 = (case sourceNodeRef st of
                   None \<Rightarrow> st
                 | Some n \<Rightarrow> st\<lparr> heap := modify n halt (heap st), sourceNodeRef := None \<rparr>)
      in st1\<lparr> isPlaying := False, pauseTimeRef := 0, progress := 0,
               animationFrameRef := False \<rparr>)"

text \<open>The handler that \<open>playAudio\<close> attaches, and the \<open>ended\<close> event of node \<open>n\<close>: it
  is dispatched once per node and runs the handler only if the node still carries it.\<close>

definition onendedHandler :: "Player \<Rightarrow> Player" where
  "onendedHandler st =
     (if sourceNodeRef st \<noteq> None
      then st\<lparr> isPlaying := False, pauseTimeRef := 0, progress := 100,
               sourceNodeRef := None, animationFrameRef := False \<rparr>
      else st)"

definition dispatched :: "nat \<Rightarrow> Player \<Rightarrow> Player" where
  "dispatched n st = st\<lparr> heap := modify n (\<lambda>nd. nd\<lparr> finished := True \<rparr>) (heap st) \<rparr>"

definition ended :: "nat \<Rightarrow> Player \<Rightarrow> Player" where
  "ended n st =
     (if n < length (heap st) \<and> \<not> finished (heap st ! n)
      then (if onended (heap st ! n) then onendedHandler (dispatched n st)
            else dispatched n st)
      else st)"

text \<open>\<open>togglePlay\<close>, the handler of the play/pause button.\<close>

definition togglePlay :: "real \<Rightarrow> Player \<Rightarrow> Player" where
  "togglePlay now st =
     (if isPlaying st then pauseAudio now st
      else playAudio now (if progress st \<ge> 100 then st\<lparr> pauseTimeRef := 0 \<rparr> else st))"

text \<open>The pitch: \<open>setPitch\<close> is the setter of the \<open>pitch\<close> state; the effect that depends
  on \<open>pitch\<close> writes it to the detune of the current source, if there is one.
  \<open>onPitchInput\<close> is the slider's \<open>onChange\<close> followed by that effect.\<close>

definition setPitch :: "int \<Rightarrow> Player \<Rightarrow> Player" where
  "setPitch cents st = st\<lparr> pitch := cents \<rparr>"

definition detuneEffect :: "Player \<Rightarrow> Player" where
  "detuneEffect st =
     (case sourceNodeRef st of
        None \<Rightarrow> st
      | Some n \<Rightarrow> st\<lparr> heap := modify n (\<lambda>nd. nd\<lparr> detune := pitch st \<rparr>) (heap st) \<rparr>)"

definition onPitchInput :: "int \<Rightarrow> Player \<Rightarrow> Player" where
  "onPitchInput v st = detuneEffect (setPitch v st)"

text \<open>What can happen to a mounted player: the two buttons, a frame tick, a move of the
  pitch slider, and the \<open>ended\<close> event of some node.\<close>

datatype event = TogglePlay real | StopAudio | Tick real | PitchInput int | Ended nat

fun step :: "event \<Rightarrow> Player \<Rightarrow> Player" where
  "step (TogglePlay now) st = togglePlay now st"
| "step StopAudio st = stopAudio st"
| "step (Tick now) st = updateProgress now st"
| "step (PitchInput v) st = onPitchInput v st"
| "step (Ended n) st = ended n st"

fun run :: "event list \<Rightarrow> Player \<Rightarrow> Player" where
  "run [] st = st"
| "run (e # es) st = run es (step e st)"

text \<open>The shape every state reached from \<open>mount\<close> has: the transport is playing exactly
  when a source is referenced, that source is in the store, and a node carries the
  completion handler with its \<open>ended\<close> event still to come exactly when it is the
  referenced one, and no node on which \<open>stop\<close> was called carries the handler.\<close>

definition wellFormed :: "Player \<Rightarrow> bool" where
  "wellFormed st \<longleftrightarrow>
     (isPlaying st \<longleftrightarrow> sourceNodeRef st \<noteq> None) \<and>
     (\<forall>n < length (heap st).
        onended (heap st ! n) \<and> \<not> finished (heap st ! n) \<longleftrightarrow> sourceNodeRef st = Some n) \<and>
     (\<forall>n. sourceNodeRef st = Some n \<longrightarrow> n < length (heap st)) \<and>
     (\<forall>n < length (heap st). stopped (heap st ! n) \<longrightarrow> \<not> onended (heap st ! n))"

text \<open>The node that \<open>sourceNodeRef.current\<close> points at, if any.\<close>

definition currentSource :: "Player \<Rightarrow> AudioBufferSourceNode option" where
  "currentSource st =
     (case sourceNodeRef st of
        None \<Rightarrow> None
      | Some n \<Rightarrow> if n < length (heap st) then Some (heap st ! n) else None)"

text \<open>The events under which the transport stays in playing are the frame ticks and the
  moves of the pitch slider. \<open>tickTimes\<close> lists the clock readings of the ticks of a run,
  \<open>reports\<close> the percentage each tick hands to \<open>setProgress\<close>, and \<open>percentAt\<close> is the
  expression of \<open>updateProgress\<close> read off a state.\<close>

fun staysPlaying :: "event \<Rightarrow> bool" where
  "staysPlaying (Tick now) = True"
| "staysPlaying (PitchInput v) = True"
| "staysPlaying e = False"

fun tickTimes :: "event list \<Rightarrow> real list" where
  "tickTimes [] = []"
| "tickTimes (Tick now # es) = now # tickTimes es"
| "tickTimes (e # es) = tickTimes es"

fun reports :: "event list \<Rightarrow> Player \<Rightarrow> real list" where
  "reports [] st = []"
| "reports (Tick now # es) st =
     progress (step (Tick now) st) # reports es (step (Tick now) st)"
| "reports (e # es) st = reports es (step e st)"

definition percentAt :: "Player \<Rightarrow> real \<Rightarrow> real" where
  "percentAt st now =
     min (((now - startTimeRef st + pauseTimeRef st) / duration st) * 100) 100"

section \<open>The Gemini service: decoding helpers and the two remote operations\<close>

text \<open>
  A thrown JavaScript error is a value carrying its message. A rejected promise and a
  thrown exception are the same thing to the \<open>try\<close>/\<open>catch\<close> of an async function, so
  every fallible operation returns \<open>jsError + 'a\<close>, with \<open>Inl\<close> for the throw.
\<close>

datatype jsError = JsError (message: string)

type_synonym byte = "8 word"

record AudioBuffer =
  numberOfChannels :: nat
  sampleRate :: nat
  channelData :: "real list list"

datatype TTSVoice = Kore | Puck | Fenrir | Charon | Zephyr

text \<open>What the component reads of a \<open>generateContent\<close> response: \<open>response.text\<close>, and
  the end of the optional chain \<open>candidates?.[0]?.content?.parts?.[0]?.inlineData?.data\<close>.
  Either is \<open>None\<close> where JavaScript has \<open>undefined\<close>.\<close>

record GenerateContentResponse =
  response_text :: "string option"
  inlineData_data :: "string option"

text \<open>The outcome of the awaited network call: it rejects with an error or resolves
  with a response.\<close>

type_synonym remote = "jsError + GenerateContentResponse"

text \<open>\<open>getAIClient\<close>: \<open>!apiKey\<close> holds for an undefined and for an empty key.\<close>

definition getAIClient :: "string option \<Rightarrow> jsError + string" where
  "getAIClient apiKey =
     (case apiKey of
        None \<Rightarrow> Inl (JsError ''API_KEY environment variable is missing.'')
      | Some k \<Rightarrow> if k = [] then Inl (JsError ''API_KEY environment variable is missing.'')
                  else Inr k)"

subsection \<open>The platform's \<open>atob\<close>\<close>

text \<open>
  \<open>atob\<close> is the browser's base64 decoder (the forgiving-base64 decode of the WHATWG
  Infra standard): ASCII whitespace is removed; if the length is then a multiple of 4,
  up to two trailing \<open>=\<close> are removed; a length of 1 modulo 4 and any character outside
  the alphabet fail; every four characters give three bytes, a rest of three gives two
  bytes and a rest of two gives one. The result is a binary string, one character per
  byte. The text of the messages of errors thrown by the platform (here and in
  \<open>decodeAudioData\<close>) is the platform's own; the model fixes one for each.
\<close>

definition isAsciiWhitespace :: "char \<Rightarrow> bool" where
  "isAsciiWhitespace c \<longleftrightarrow> (of_char c :: nat) \<in> {9, 10, 12, 13, 32}"

definition base64Value :: "char \<Rightarrow> nat option" where
  "base64Value c =
     (let n = (of_char c :: nat)
      in if 65 \<le> n \<and> n \<le> 90 then Some (n - 65)
         else if 97 \<le> n \<and> n \<le> 122 then Some (n - 71)
         else if 48 \<le> n \<and> n \<le> 57 then Some (n + 4)
         else if n = 43 then Some 62
         else if n = 47 then Some 63
         else None)"

fun sextets :: "string \<Rightarrow> nat list option" where
  "sextets [] = Some []"
| "sextets (c # cs) =
     (case base64Value c of
        None \<Rightarrow> None
      | Some v \<Rightarrow> (case sextets cs of None \<Rightarrow> None | Some vs \<Rightarrow> Some (v # vs)))"

fun octets :: "nat list \<Rightarrow> nat list" where
  "octets (a # b # c # d # rest) =
     (a * 4 + b div 16) # ((b mod 16) * 16 + c div 4) # ((c mod 4) * 64 + d) # octets rest"
| "octets [a, b, c] = [a * 4 + b div 16, (b mod 16) * 16 + c div 4]"
| "octets [a, b] = [a * 4 + b div 16]"
| "octets _ = []"

definition stripPadding :: "string \<Rightarrow> string" where
  "stripPadding s =
     (if length s mod 4 = 0 then
        (if s \<noteq> [] \<and> last s = CHR ''='' then
           (if butlast s \<noteq> [] \<and> last (butlast s) = CHR ''='' then butlast (butlast s)
            else butlast s)
         else s)
      else s)"

definition atob :: "string \<Rightarrow> jsError + string" where
  "atob base64 =
     (let s = stripPadding (filter (\<lambda>c. \<not> isAsciiWhitespace c) base64)
      in if length s mod 4 = 1 then Inl (JsError ''String contains an invalid character'')
         else (case sextets s of
                 None \<Rightarrow> Inl (JsError ''String contains an invalid character'')
               | Some vs \<Rightarrow> Inr (map char_of (octets vs))))"

subsection \<open>\<open>decode\<close> and \<open>decodeAudioData\<close>\<close>

text \<open>\<open>decode\<close>: \<open>atob\<close>, then \<open>bytes[i] = binaryString.charCodeAt(i)\<close> for every index.\<close>

definition decode :: "string \<Rightarrow> jsError + byte list" where
  "decode base64 =
     (case atob base64 of
        Inl e \<Rightarrow> Inl e
      | Inr binaryString \<Rightarrow> Inr (map (\<lambda>c. (of_char c :: byte)) binaryString))"

text \<open>\<open>new Int16Array(data.buffer)\<close> views the bytes as 16-bit integers in the
  platform's byte order, little-endian on every platform the component runs on; it
  throws a RangeError when the byte length is odd.\<close>

definition int16le :: "byte \<Rightarrow> byte \<Rightarrow> 16 word" where
  "int16le lo hi = push_bit 8 (ucast hi) OR ucast lo"

fun int16View :: "byte list \<Rightarrow> 16 word list" where
  "int16View (lo # hi # rest) = int16le lo hi # int16View rest"
| "int16View _ = []"

definition newInt16Array :: "byte list \<Rightarrow> jsError + 16 word list" where
  "newInt16Array bytes =
     (if odd (length bytes)
      then Inl (JsError ''byte length of Int16Array should be a multiple of 2'')
      else Inr (int16View bytes))"

text \<open>\<open>ctx.createBuffer\<close> throws a NotSupportedError for a channel count, a frame
  count or a rate of zero (the rate of the only call, 24000, is inside the range every
  platform supports); otherwise the buffer starts out silent.\<close>

definition createBuffer :: "nat \<Rightarrow> nat \<Rightarrow> nat \<Rightarrow> jsError + AudioBuffer" where
  "createBuffer numChannels frameCount rate =
     (if numChannels = 0 \<or> frameCount = 0 \<or> rate = 0
      then Inl (JsError ''Operation is not supported'')
      else Inr \<lparr> numberOfChannels = numChannels, sampleRate = rate,
                 channelData = replicate numChannels (replicate frameCount 0) \<rparr>)"

text \<open>\<open>decodeAudioData\<close>: the two nested loops write, for every channel and frame,
  \<open>dataInt16[i * numChannels + channel] / 32768.0\<close>. The quotient of a 16-bit integer
  by \<open>2^15\<close> is exact in the 32-bit floats of the channel array, so the real number of the
  model is the value stored. \<open>frameCount\<close> is \<open>dataInt16.length / numChannels\<close>; the
  buffer holds its integer part, and there is one channel in the only call.\<close>

definition decodeAudioData :: "byte list \<Rightarrow> nat \<Rightarrow> nat \<Rightarrow> jsError + AudioBuffer" where
  "decodeAudioData data rate numChannels =
     (case newInt16Array data of
        Inl e \<Rightarrow> Inl e
      | Inr dataInt16 \<Rightarrow>
          (let frameCount = length dataInt16 div numChannels
           in case createBuffer numChannels frameCount rate of
                Inl e \<Rightarrow> Inl e
              | Inr buffer \<Rightarrow>
                  Inr (buffer\<lparr> channelData :=
                         map (\<lambda>channel.
                                map (\<lambda>i. real_of_int (sint (dataInt16 ! (i * numChannels + channel)))
                                            / 32768)
                                    [0 ..< frameCount])
                             [0 ..< numChannels] \<rparr>)))"

subsection \<open>\<open>summarizeArticles\<close> and \<open>generateSpeech\<close>\<close>

text \<open>Both are given the outcome of their network call. The request they send (the
  prompt, the model name, the voice) does not enter what they return.\<close>

definition summarizeArticles :: "string option \<Rightarrow> remote \<Rightarrow> jsError + string" where
  "summarizeArticles apiKey outcome =
     (case getAIClient apiKey of
        Inl e \<Rightarrow> Inl e
      | Inr ai \<Rightarrow>
          (case outcome of
             Inl e \<Rightarrow> Inl e
           | Inr response \<Rightarrow>
               Inr (case response_text response of
                      None \<Rightarrow> ''I'm sorry, I couldn't generate a summary at this time.''
                    | Some t \<Rightarrow> if t = []
                               then ''I'm sorry, I couldn't generate a summary at this time.''
                               else t)))"

definition generateSpeech :: "string option \<Rightarrow> remote \<Rightarrow> jsError + AudioBuffer" where
  "generateSpeech apiKey outcome =
     (case getAIClient apiKey of
        Inl e \<Rightarrow> Inl e
      | Inr ai \<Rightarrow>
          (case outcome of
             Inl e \<Rightarrow> Inl e
           | Inr response \<Rightarrow>
               (case inlineData_data response of
                  None \<Rightarrow> Inl (JsError ''No audio data returned from Gemini.'')
                | Some base64Audio \<Rightarrow>
                    if base64Audio = []
                    then Inl (JsError ''No audio data returned from Gemini.'')
                    else (case decode base64Audio of
                            Inl e \<Rightarrow> Inl e
                          | Inr audioBytes \<Rightarrow> decodeAudioData audioBytes 24000 1))))"

section \<open>Generation orchestrator: the App component\<close>

subsection \<open>Classifying errors\<close>

text \<open>\<open>String.prototype.includes\<close> and \<open>toLowerCase\<close> on the ASCII letters (the patterns
  searched for are ASCII).\<close>

fun startsWith :: "string \<Rightarrow> string \<Rightarrow> bool" where
  "startsWith s [] = True"
| "startsWith [] (p # ps) = False"
| "startsWith (c # cs) (p # ps) = (c = p \<and> startsWith cs ps)"

fun includes' :: "string \<Rightarrow> string \<Rightarrow> bool" where
  "includes' [] p = (p = [])"
| "includes' (c # cs) p = (startsWith (c # cs) p \<or> includes' cs p)"

definition toLowerCase :: "string \<Rightarrow> string" where
  "toLowerCase s =
     map (\<lambda>c. let n = (of_char c :: nat)
               in if 65 \<le> n \<and> n \<le> 90 then char_of (n + 32) else c) s"

definition getFriendlyErrorMessage :: "jsError \<Rightarrow> string" where
  "getFriendlyErrorMessage err =
     (let msg = toLowerCase (message err)
      in if includes' msg ''api_key'' \<or> includes' msg ''apikey''
         then ''API Key is missing or invalid. Please check your settings.''
         else if includes' msg ''quota'' \<or> includes' msg ''429''
         then ''API usage limit exceeded. Please try again later.''
         else if includes' msg ''safety'' \<or> includes' msg ''blocked'' \<or> includes' msg ''harmful''
         then ''Content was flagged by safety filters. Please review and edit your articles.''
         else if includes' msg ''network'' \<or> includes' msg ''fetch'' \<or> includes' msg ''connection''
         then ''Network connection error. Please check your internet and try again.''
         else if includes' msg ''503'' \<or> includes' msg ''overloaded''
                 \<or> includes' msg ''service unavailable''
         then ''The AI service is currently overloaded. Please wait a moment and try again.''
         else if includes' msg ''no audio data''
         then ''Audio generation failed to return data. Please try again.''
         else if message err \<noteq> [] then message err
         else ''An unexpected error occurred. Please try again.'')"

subsection \<open>State of the component\<close>

record Article =
  id' :: string
  title :: string
  content :: string
  timestamp :: int

datatype status = Idle | Summarizing | GeneratingAudio | Ready | Error

record GenerationState =
  status :: status
  error :: "string option"

text \<open>The state and the refs that generation touches. \<open>audioContextRef\<close> is True once the
  mount effect has created the context; \<open>API_KEY\<close> is \<open>process.env.API_KEY\<close>.\<close>

record App =
  articles :: "Article list"
  generationState :: GenerationState
  summaryText :: "string option"
  audioBuffer :: "AudioBuffer option"
  selectedVoice :: TTSVoice
  audioContextRef :: bool
  lastGenRequestRef :: int
  API_KEY :: "string option"

definition initialApp :: "string option \<Rightarrow> App" where
  "initialApp key =
     \<lparr> articles = [], generationState = \<lparr> status = Idle, error = None \<rparr>,
       summaryText = None, audioBuffer = None, selectedVoice = Kore,
       audioContextRef = True, lastGenRequestRef = 0, API_KEY = key \<rparr>"

subsection \<open>\<open>handleGenerate\<close>\<close>

text \<open>
  \<open>handleGenerate\<close> is an async function with two \<open>await\<close>s. An invocation that is
  suspended is a continuation: it holds the \<open>currentRequestTime\<close> it captured and, at the
  second \<open>await\<close>, the summary. The function is modelled by its three segments: up to
  the first \<open>await\<close> (\<open>handleGenerate\<close>, given the reading \<open>now\<close> of \<open>Date.now()\<close>), from the
  first to the second (\<open>afterSummarize\<close>), and from the second to the end
  (\<open>afterSpeech\<close>); \<open>catchBlock\<close> is the \<open>catch\<close> clause, reached from either \<open>await\<close>.
\<close>

datatype continuation = Finished | AwaitSummarize int | AwaitSpeech int string

definition contentList :: "Article list \<Rightarrow> string list" where
  "contentList as =
     map (\<lambda>a. ''Title: '' @ title a @ [CHR 0x0A] @ ''Content: '' @ content a) as"

definition handleGenerate :: "int \<Rightarrow> App \<Rightarrow> App \<times> continuation" where
  "handleGenerate now st =
     (if articles st = [] then (st, Finished)
      else if \<not> audioContextRef st then (st, Finished)
      else (st\<lparr> lastGenRequestRef := now,
                 summaryText := None,
                 audioBuffer := None,
                 generationState := \<lparr> status = Summarizing, error = None \<rparr> \<rparr>,
            AwaitSummarize now))"

definition catchBlock :: "int \<Rightarrow> jsError \<Rightarrow> App \<Rightarrow> App" where
  "catchBlock currentRequestTime err st =
     (if lastGenRequestRef st \<noteq> currentRequestTime then st
      else st\<lparr> generationState :=
                 \<lparr> status = Error, error = Some (getFriendlyErrorMessage err) \<rparr> \<rparr>)"

definition afterSummarize :: "int \<Rightarrow> remote \<Rightarrow> App \<Rightarrow> App \<times> continuation" where
  "afterSummarize currentRequestTime outcome st =
     (case summarizeArticles (API_KEY st) outcome of
        Inl err \<Rightarrow> (catchBlock currentRequestTime err st, Finished)
      | Inr summary \<Rightarrow>
          if lastGenRequestRef st \<noteq> currentRequestTime then (st, Finished)
          else (st\<lparr> summaryText := Some summary,
                     generationState := \<lparr> status = GeneratingAudio, error = None \<rparr> \<rparr>,
                AwaitSpeech currentRequestTime summary))"

definition afterSpeech :: "int \<Rightarrow> remote \<Rightarrow> App \<Rightarrow> App" where
  "afterSpeech currentRequestTime outcome st =
     (case generateSpeech (API_KEY st) outcome of
        Inl err \<Rightarrow> catchBlock currentRequestTime err st
      | Inr buffer \<Rightarrow>
          if lastGenRequestRef st \<noteq> currentRequestTime then st
          else st\<lparr> audioBuffer := Some buffer,
                    generationState := \<lparr> status = Ready, error = None \<rparr> \<rparr>)"

text \<open>Resuming a suspended invocation with the outcome of the call it awaits.\<close>

fun resume :: "continuation \<Rightarrow> remote \<Rightarrow> App \<Rightarrow> App \<times> continuation" where
  "resume Finished outcome st = (st, Finished)"
| "resume (AwaitSummarize t) outcome st = afterSummarize t outcome st"
| "resume (AwaitSpeech t summary) outcome st = (afterSpeech t outcome st, Finished)"

subsection \<open>The queue and the effect on its length\<close>

text \<open>The effect \<open>Clear state when list becomes empty\<close> runs after a render in which
  \<open>articles.length\<close> changed; the two handlers that shrink the queue are followed by it.\<close>

definition clearWhenEmpty :: "App \<Rightarrow> App" where
  "clearWhenEmpty st =
     (if articles st = []
      then st\<lparr> audioBuffer := None, summaryText := None,
                generationState := \<lparr> status = Idle, error = None \<rparr> \<rparr>
      else st)"

definition handleRemoveArticle :: "string \<Rightarrow> App \<Rightarrow> App" where
  "handleRemoveArticle i st =
     clearWhenEmpty (st\<lparr> articles := filter (\<lambda>a. id' a \<noteq> i) (articles st) \<rparr>)"

definition handleClearAll :: "bool \<Rightarrow> App \<Rightarrow> App" where
  "handleClearAll confirmed st =
     (if articles st = [] then st
      else if confirmed then clearWhenEmpty (st\<lparr> articles := [] \<rparr>)
      else st)"

subsection \<open>Overlapping invocations\<close>

text \<open>
  The event loop interleaves the component with the invocations of \<open>handleGenerate\<close>
  that are suspended. \<open>pending\<close> lists them in the order they were issued; \<open>Settle i r\<close>
  is the call awaited by the \<open>i\<close>-th one settling with outcome \<open>r\<close>.
\<close>

datatype appEvent =
    Generate int
  | Settle nat remote
  | RemoveArticle string
  | ClearAll bool

type_synonym system = "App \<times> continuation list"

fun appStep :: "appEvent \<Rightarrow> system \<Rightarrow> system" where
  "appStep (Generate now) (st, pending) =
     (case handleGenerate now st of (st', k) \<Rightarrow> (st', pending @ [k]))"
| "appStep (Settle i outcome) (st, pending) =
     (if i < length pending
      then (case resume (pending ! i) outcome st of (st', k) \<Rightarrow> (st', pending[i := k]))
      else (st, pending))"
| "appStep (RemoveArticle i) (st, pending) = (handleRemoveArticle i st, pending)"
| "appStep (ClearAll confirmed) (st, pending) = (handleClearAll confirmed st, pending)"

fun appRun :: "appEvent list \<Rightarrow> system \<Rightarrow> system" where
  "appRun [] sys = sys"
| "appRun (e # es) sys = appRun es (appStep e sys)"

text \<open>Reading runs: the request time a suspended invocation captured, whether an event
  is the settling of a call, and whether it settles the call of the \<open>n\<close>-th invocation.\<close>

fun capturedTime :: "continuation \<Rightarrow> int option" where
  "capturedTime Finished = None"
| "capturedTime (AwaitSummarize t) = Some t"
| "capturedTime (AwaitSpeech t summary) = Some t"

fun isSettle :: "appEvent \<Rightarrow> bool" where
  "isSettle (Settle i outcome) = True"
| "isSettle e = False"


fun isGenerate :: "appEvent \<Rightarrow> bool" where
  "isGenerate (Generate now) = True"
| "isGenerate e = False"

fun generateTimes :: "appEvent list \<Rightarrow> int list" where
  "generateTimes [] = []"
| "generateTimes (Generate now # es) = now # generateTimes es"
| "generateTimes (e # es) = generateTimes es"


text \<open>The same for runs that mix calls and completions: the queue is not empty and the
  context exists, every captured request time is one of \<open>seen\<close>, and only the invocation
  issued last can hold the request time that is in the ref.\<close>

definition issuedInv :: "int set \<Rightarrow> system \<Rightarrow> bool" where
  "issuedInv seen sys \<longleftrightarrow>
     articles (fst sys) \<noteq> [] \<and> audioContextRef (fst sys) \<and>
     (\<forall>k \<in> set (snd sys). \<forall>t. capturedTime k = Some t \<longrightarrow> t \<in> seen) \<and>
     (\<forall>i. Suc i < length (snd sys) \<longrightarrow>
          capturedTime (snd sys ! i) \<noteq> Some (lastGenRequestRef (fst sys)))"

text \<open>Concrete inputs for the examples: a component with a key and one queued article, a
  summarization response with text, and a synthesis response with a payload.\<close>

definition queuedApp :: App where
  "queuedApp = (initialApp (Some ''key''))
      \<lparr> articles := [\<lparr> id' = ''a1'', title = ''Article 1'', content = ''text'',
                        timestamp = 1 \<rparr>] \<rparr>"

definition summaryResponse :: "string \<Rightarrow> remote" where
  "summaryResponse s = Inr \<lparr> response_text = Some s, inlineData_data = None \<rparr>"

definition audioResponse :: "string \<Rightarrow> remote" where
  "audioResponse b = Inr \<lparr> response_text = None, inlineData_data = Some b \<rparr>"

section \<open>Properties of the playback engine\<close>

subsection \<open>The store and the shape of reachable states\<close>

lemma modify_length [simp]: "length (modify n f xs) = length xs"
  by (simp add: modify_def)

lemma modify_nth:
  "m < length xs \<Longrightarrow> modify n f xs ! m = (if m = n then f (xs ! m) else xs ! m)"
  by (simp add: modify_def)

lemma wellFormed_mount: "wellFormed (mount d)"
  by (simp add: wellFormed_def mount_def)

lemma wellFormed_handler:
  "wellFormed st \<Longrightarrow> n < length (heap st) \<Longrightarrow>
   (onended (heap st ! n) \<and> \<not> finished (heap st ! n)) = (sourceNodeRef st = Some n)"
  unfolding wellFormed_def by blast

lemma wellFormed_current:
  "wellFormed st \<Longrightarrow> sourceNodeRef st = Some n \<Longrightarrow>
   n < length (heap st) \<and> onended (heap st ! n) \<and> \<not> finished (heap st ! n)"
  unfolding wellFormed_def by blast

lemma wellFormed_stopped:
  "wellFormed st \<Longrightarrow> n < length (heap st) \<Longrightarrow> stopped (heap st ! n) \<Longrightarrow>
   \<not> onended (heap st ! n)"
  unfolding wellFormed_def by blast

lemma wellFormed_playAudio:
  "wellFormed st \<Longrightarrow> \<not> isPlaying st \<Longrightarrow> wellFormed (playAudio now st)"
  by (auto simp: wellFormed_def playAudio_def nth_append)

lemma wellFormed_pauseTimeRef_update:
  "wellFormed st \<Longrightarrow> wellFormed (st\<lparr> pauseTimeRef := x \<rparr>)"
  by (simp add: wellFormed_def)

lemma wellFormed_pauseAudio: "wellFormed st \<Longrightarrow> wellFormed (pauseAudio now st)"
  by (auto simp: wellFormed_def pauseAudio_def modify_nth halt_def split: option.splits)

lemma wellFormed_stopAudio: "wellFormed st \<Longrightarrow> wellFormed (stopAudio st)"
  by (auto simp: wellFormed_def stopAudio_def modify_nth halt_def split: option.splits)

lemma wellFormed_updateProgress: "wellFormed st \<Longrightarrow> wellFormed (updateProgress now st)"
  by (simp add: wellFormed_def updateProgress_def Let_def)

lemma wellFormed_onPitchInput: "wellFormed st \<Longrightarrow> wellFormed (onPitchInput v st)"
  by (auto simp: wellFormed_def onPitchInput_def detuneEffect_def setPitch_def modify_nth
           split: option.splits)

lemma wellFormed_ended:
  assumes wf: "wellFormed st"
  shows "wellFormed (ended n st)"
proof (cases "n < length (heap st) \<and> \<not> finished (heap st ! n)")
  case False
  then show ?thesis using wf by (auto simp: ended_def)
next
  case live: True
  show ?thesis
  proof (cases "onended (heap st ! n)")
    case True
    with live wf have cur: "sourceNodeRef st = Some n"
      using wellFormed_handler [of st n] by blast
    have others: "\<And>m. m < length (heap st) \<Longrightarrow> m \<noteq> n \<Longrightarrow>
                    \<not> (onended (heap st ! m) \<and> \<not> finished (heap st ! m))"
      using wf cur wellFormed_handler [of st] by simp
    have halted: "\<And>m. m < length (heap st) \<Longrightarrow> stopped (heap st ! m) \<Longrightarrow>
                    \<not> onended (heap st ! m)"
      using wf wellFormed_stopped [of st] by simp
    show ?thesis
      using live True cur others halted
      by (auto simp: wellFormed_def ended_def onendedHandler_def dispatched_def modify_nth)
  next
    case False
    with live wf have "sourceNodeRef st \<noteq> Some n"
      using wellFormed_handler [of st n] by blast
    then show ?thesis
      using live False wf
      by (auto simp: wellFormed_def ended_def dispatched_def modify_nth)
  qed
qed

lemma wellFormed_togglePlay: "wellFormed st \<Longrightarrow> wellFormed (togglePlay now st)"
  by (simp add: togglePlay_def wellFormed_pauseAudio wellFormed_playAudio
        wellFormed_pauseTimeRef_update)

lemma wellFormed_step: "wellFormed st \<Longrightarrow> wellFormed (step e st)"
  by (cases e)
     (simp_all add: wellFormed_togglePlay wellFormed_stopAudio wellFormed_updateProgress
        wellFormed_onPitchInput wellFormed_ended)

lemma wellFormed_run: "wellFormed st \<Longrightarrow> wellFormed (run es st)"
  by (induction es arbitrary: st) (simp_all add: wellFormed_step)

lemma reachable_wellFormed: "wellFormed (run es (mount d))"
  by (simp add: wellFormed_run wellFormed_mount)

lemma currentSource_playAudio:
  "currentSource (playAudio now st) =
     Some \<lparr> detune = pitch st, onended = True, startOffset = pauseTimeRef st,
            stopped = False, finished = False \<rparr>"
  by (simp add: currentSource_def playAudio_def)

subsection \<open>Pitch\<close>




subsection \<open>Offsets across stop, pause and play\<close>


text \<open>The play/pause button goes through \<open>togglePlay\<close>, which zeroes the paused offset
  before playing when the progress shown has reached 100. After \<open>stopAudio\<close> that makes
  no difference; after \<open>pauseAudio\<close> it resumes at the paused offset as long as the
  progress is below 100.\<close>

lemma togglePlay_after_stopAudio:
  "map_option startOffset (currentSource (togglePlay now (stopAudio st))) = Some 0"
  by (simp add: togglePlay_def currentSource_playAudio)
     (simp add: stopAudio_def Let_def split: option.splits)

lemma togglePlay_after_pauseAudio:
  "sourceNodeRef st \<noteq> None \<Longrightarrow>
   map_option startOffset (currentSource (togglePlay now' (pauseAudio now st))) =
     Some (if progress st \<ge> 100 then 0 else pauseTimeRef (pauseAudio now st))"
  by (auto simp: togglePlay_def currentSource_playAudio pauseAudio_def split: option.splits)

subsection \<open>Progress\<close>

lemma percentAt_mono:
  "0 < duration st \<Longrightarrow> t1 \<le> t2 \<Longrightarrow> percentAt st t1 \<le> percentAt st t2"
  unfolding percentAt_def
  by (intro min.mono mult_right_mono divide_right_mono) simp_all

lemma percentAt_staysPlaying: "staysPlaying e \<Longrightarrow> percentAt (step e st) = percentAt st"
  by (cases e)
     (auto simp: percentAt_def fun_eq_iff updateProgress_def Let_def onPitchInput_def
        detuneEffect_def setPitch_def split: option.splits)

lemma isPlaying_staysPlaying: "staysPlaying e \<Longrightarrow> isPlaying (step e st) = isPlaying st"
  by (cases e)
     (auto simp: updateProgress_def Let_def onPitchInput_def detuneEffect_def setPitch_def
           split: option.splits)

lemma isPlaying_run_staysPlaying:
  "\<forall>e \<in> set es. staysPlaying e \<Longrightarrow> isPlaying (run es st) = isPlaying st"
  by (induction es arbitrary: st) (simp_all add: isPlaying_staysPlaying)

lemma reports_percentAt:
  "\<forall>e \<in> set es. staysPlaying e \<Longrightarrow> reports es st = map (percentAt st) (tickTimes es)"
proof (induction es arbitrary: st)
  case Nil
  then show ?case by simp
next
  case (Cons e es)
  then have IH: "reports es (step e st) = map (percentAt st) (tickTimes es)"
    by (simp add: percentAt_staysPlaying)
  show ?case
  proof (cases e)
    case (Tick now)
    then show ?thesis using IH by (simp add: updateProgress_def percentAt_def Let_def)
  next
    case (PitchInput v)
    then show ?thesis using IH by simp
  qed (use Cons.prems in auto)
qed

lemma percent_fraction: "min (x * 100) 100 / 100 = min x (1::real)"
  by (cases "x \<le> 1") (simp_all add: min_def)

lemma sorted_map_percentAt:
  "0 < duration st \<Longrightarrow> sorted ts \<Longrightarrow> sorted (map (percentAt st) ts)"
  by (induction ts) (auto simp: percentAt_mono)

text \<open>
  Claim C7. A tick at clock reading \<open>now\<close> reports the fraction
  \<open>min (elapsed / duration) 1\<close> of the buffer (as a percentage, the fraction times 100),
  with \<open>elapsed = now - startTimeRef + pauseTimeRef\<close>. Over any run of events that keep
  the transport in playing (ticks and pitch changes), for a buffer of positive duration
  and a clock that does not go backwards, the reported values never decrease, and the
  transport flag keeps its value; \<open>stopAudio\<close> afterwards sets the progress to 0.
\<close>

theorem progress_monotone_while_playing:
  assumes "0 < duration st"
    and "\<forall>e \<in> set es. staysPlaying e"
    and "sorted (tickTimes es)"
  shows "sorted (reports es st) \<and>
         isPlaying (run es st) = isPlaying st \<and>
         progress (updateProgress now st) / 100 =
           min ((now - startTimeRef st + pauseTimeRef st) / duration st) 1 \<and>
         progress (stopAudio (run es st)) = 0"
proof -
  have "sorted (reports es st)"
    using assms by (simp add: reports_percentAt sorted_map_percentAt)
  moreover have "isPlaying (run es st) = isPlaying st"
    using assms(2) by (rule isPlaying_run_staysPlaying)
  moreover have "progress (updateProgress now st) =
          min ((now - startTimeRef st + pauseTimeRef st) / duration st * 100) 100"
    by (simp add: updateProgress_def Let_def)
  then have "progress (updateProgress now st) / 100 =
          min ((now - startTimeRef st + pauseTimeRef st) / duration st) 1"
    by (simp only: percent_fraction)
  moreover have "progress (stopAudio (run es st)) = 0"
    by (simp add: stopAudio_def Let_def split: option.splits)
  ultimately show ?thesis by blast
qed

lemma reports_example:
  "reports [Tick 1, PitchInput 200, Tick 3, Tick 12] (playAudio 0 (mount 10)) = [10, 30, 100]"
  by (simp add: playAudio_def mount_def updateProgress_def onPitchInput_def detuneEffect_def
        setPitch_def Let_def modify_def)

theorem progress_monotone_while_playing_witness:
  "0 < duration (playAudio 0 (mount 10)) \<and>
   sorted (tickTimes [Tick 1, PitchInput 200, Tick 3, Tick 12]) \<and>
   sorted (reports [Tick 1, PitchInput 200, Tick 3, Tick 12] (playAudio 0 (mount 10))) \<and>
   isPlaying (run [Tick 1, PitchInput 200, Tick 3, Tick 12] (playAudio 0 (mount 10))) \<and>
   progress (stopAudio (run [Tick 1, PitchInput 200, Tick 3, Tick 12] (playAudio 0 (mount 10)))) = 0"
proof -
  have h1: "0 < duration (playAudio 0 (mount 10))"
    by (simp add: playAudio_def mount_def)
  have h2: "\<forall>e \<in> set [Tick 1, PitchInput 200, Tick 3, Tick 12]. staysPlaying e"
    by simp
  have h3: "sorted (tickTimes [Tick 1, PitchInput 200, Tick 3, Tick 12])"
    by simp
  have p: "isPlaying (playAudio 0 (mount 10))"
    by (simp add: playAudio_def)
  show ?thesis
    using progress_monotone_while_playing [OF h1 h2 h3, of 0] h1 h3 p by simp
qed

subsection \<open>Natural completion and intentional halts\<close>

text \<open>
  Claim C8. \<open>playAudio\<close> attaches the completion handler to the source it creates. In
  every well-formed state (every state reached from \<open>mount\<close> is one), when the \<open>ended\<close>
  event of the referenced source arrives, the handler sets the paused offset to 0, the
  transport to not playing and the progress to 100, and clears the reference.
  \<open>pauseAudio\<close> and \<open>stopAudio\<close> take the handler off the source they halt, so its \<open>ended\<close>
  event only marks the node as finished and leaves every field of the player as it
  was; the same holds for the \<open>ended\<close> event of any node on which \<open>stop\<close> was called.
\<close>

theorem natural_completion_resets_and_halts_detach:
  assumes "wellFormed st"
  shows "map_option onended (currentSource (playAudio now st)) = Some True \<and>
     (\<forall>n. sourceNodeRef st = Some n \<longrightarrow>
        pauseTimeRef (ended n st) = 0 \<and> \<not> isPlaying (ended n st) \<and>
        progress (ended n st) = 100 \<and> sourceNodeRef (ended n st) = None \<and>
        \<not> onended (heap (pauseAudio now st) ! n) \<and>
        ended n (pauseAudio now st) = dispatched n (pauseAudio now st) \<and>
        \<not> onended (heap (stopAudio st) ! n) \<and>
        ended n (stopAudio st) = dispatched n (stopAudio st)) \<and>
     (\<forall>n < length (heap st). stopped (heap st ! n) \<longrightarrow>
        ended n st = (if finished (heap st ! n) then st else dispatched n st))"
proof -
  have reg: "map_option onended (currentSource (playAudio now st)) = Some True"
    by (simp add: currentSource_playAudio)
  have cur: "pauseTimeRef (ended n st) = 0 \<and> \<not> isPlaying (ended n st) \<and>
        progress (ended n st) = 100 \<and> sourceNodeRef (ended n st) = None \<and>
        \<not> onended (heap (pauseAudio now st) ! n) \<and>
        ended n (pauseAudio now st) = dispatched n (pauseAudio now st) \<and>
        \<not> onended (heap (stopAudio st) ! n) \<and>
        ended n (stopAudio st) = dispatched n (stopAudio st)"
    if n: "sourceNodeRef st = Some n" for n
  proof -
    have live: "n < length (heap st)" "onended (heap st ! n)" "\<not> finished (heap st ! n)"
      using wellFormed_current [OF assms n] by simp_all
    have fire: "ended n st = onendedHandler (dispatched n st)"
      using live by (simp add: ended_def)
    have a: "pauseTimeRef (ended n st) = 0 \<and> \<not> isPlaying (ended n st) \<and>
        progress (ended n st) = 100 \<and> sourceNodeRef (ended n st) = None"
      using n by (simp add: fire onendedHandler_def dispatched_def)
    have b: "\<not> onended (heap (pauseAudio now st) ! n) \<and>
        ended n (pauseAudio now st) = dispatched n (pauseAudio now st)"
      using n live by (simp add: pauseAudio_def ended_def modify_nth halt_def)
    have c: "\<not> onended (heap (stopAudio st) ! n) \<and>
        ended n (stopAudio st) = dispatched n (stopAudio st)"
      using n live by (simp add: stopAudio_def ended_def modify_nth halt_def)
    show ?thesis using a b c by blast
  qed
  have old: "ended n st = (if finished (heap st ! n) then st else dispatched n st)"
    if "n < length (heap st)" "stopped (heap st ! n)" for n
    using that wellFormed_stopped [OF assms that] by (simp add: ended_def)
  show ?thesis using reg cur old by blast
qed

theorem natural_completion_resets_and_halts_detach_witness:
  "wellFormed (playAudio 0 (mount 10)) \<and>
   sourceNodeRef (playAudio 0 (mount 10)) = Some 0 \<and>
   pauseTimeRef (ended 0 (playAudio 0 (mount 10))) = 0 \<and>
   \<not> isPlaying (ended 0 (playAudio 0 (mount 10))) \<and>
   progress (ended 0 (playAudio 0 (mount 10))) = 100 \<and>
   ended 0 (pauseAudio 3 (playAudio 0 (mount 10))) =
     dispatched 0 (pauseAudio 3 (playAudio 0 (mount 10)))"
proof -
  have wf: "wellFormed (playAudio 0 (mount 10))"
    by (simp add: wellFormed_def playAudio_def mount_def)
  have cur: "sourceNodeRef (playAudio 0 (mount 10)) = Some 0"
    by (simp add: playAudio_def mount_def)
  show ?thesis
    using natural_completion_resets_and_halts_detach [OF wf, of 3] wf cur by blast
qed

subsection \<open>Pausing without a source\<close>

text \<open>
  Claim C10. Calling \<open>pauseAudio\<close> while no source is referenced, which in a well-formed
  state is the same as the transport not playing, changes nothing: the paused offset,
  the progress, the pitch, the transport flag and every other field stay as they were.
\<close>

theorem pauseAudio_without_source_noop:
  assumes "sourceNodeRef st = None \<or> (wellFormed st \<and> \<not> isPlaying st)"
  shows "pauseAudio now st = st"
proof -
  have "sourceNodeRef st = None"
    using assms by (auto simp: wellFormed_def)
  then show ?thesis by (simp add: pauseAudio_def)
qed

theorem pauseAudio_without_source_noop_witness:
  "sourceNodeRef (mount 10) = None \<and> pauseAudio 3 (mount 10) = mount 10"
proof -
  have h: "sourceNodeRef (mount 10) = None"
    by (simp add: mount_def)
  show ?thesis
    using pauseAudio_without_source_noop [of "mount 10" 3] h by simp
qed

section \<open>Properties of the decoding helper\<close>

lemma int16le_cat: "int16le lo hi = word_cat hi lo"
  by (simp add: int16le_def word_cat_eq_push_bit_or)

text \<open>The 16-bit view is little-endian: the unsigned value is \<open>lo + 256 * hi\<close>.\<close>

lemma uint_int16le: "uint (int16le lo hi) = uint lo + 256 * uint hi"
proof -
  have "int16le lo hi = push_bit 8 (ucast hi) + ucast lo"
    by (simp add: int16le_cat word_cat_eq)
  moreover have "uint lo < 256" "uint hi < 256"
    using uint_bounded [of lo] uint_bounded [of hi] by simp_all
  moreover have "0 \<le> uint lo" "0 \<le> uint hi" by simp_all
  ultimately show ?thesis
    by (simp add: uint_word_ariths uint_up_ucast is_up push_bit_eq_mult)
qed





lemma atob_example:
  "atob ''AAD/fwCA'' = Inr [CHR 0x00, CHR 0x00, CHR 0xFF, CHR 0x7F, CHR 0x00, CHR 0x80]"
  by code_simp

lemma decode_example: "decode ''AAD/fwCA'' = Inr [0, 0, 255, 127, 0, 128]"
  using atob_example by (simp add: decode_def)

lemma decodeAudioData_example:
  "decodeAudioData [0, 0, 255, 127, 0, 128] 24000 1 =
     Inr \<lparr> numberOfChannels = 1, sampleRate = 24000,
            channelData = [[0, 32767 / 32768, - 1]] \<rparr>"
  by (simp add: decodeAudioData_def newInt16Array_def createBuffer_def int16le_def Let_def)

lemma generateSpeech_example:
  "generateSpeech (Some ''key'') (audioResponse ''AAD/fwCA'') =
     Inr \<lparr> numberOfChannels = 1, sampleRate = 24000,
            channelData = [[0, 32767 / 32768, - 1]] \<rparr>"
  by (simp add: generateSpeech_def getAIClient_def audioResponse_def decode_example
        decodeAudioData_example del: One_nat_def)



section \<open>Properties of the generation orchestrator\<close>

lemmas app_defs =
  queuedApp_def initialApp_def handleGenerate_def afterSummarize_def afterSpeech_def
  catchBlock_def summarizeArticles_def generateSpeech_def getAIClient_def
  summaryResponse_def audioResponse_def handleRemoveArticle_def handleClearAll_def
  clearWhenEmpty_def

subsection \<open>Stale invocations\<close>

lemma catchBlock_stale: "lastGenRequestRef st \<noteq> t \<Longrightarrow> catchBlock t err st = st"
  by (simp add: catchBlock_def)

text \<open>An invocation whose captured request time is not the one in the ref ends at its
  next resumption, whatever the outcome, and leaves the state as it is.\<close>

lemma resume_stale:
  "capturedTime k \<noteq> Some (lastGenRequestRef st) \<Longrightarrow> resume k outcome st = (st, Finished)"
  by (cases k) (auto simp: afterSummarize_def afterSpeech_def catchBlock_def split: sum.splits)

lemma resume_lastGenRequestRef:
  "lastGenRequestRef (fst (resume k outcome st)) = lastGenRequestRef st"
  by (cases k) (auto simp: afterSummarize_def afterSpeech_def catchBlock_def split: sum.splits)

lemma clearWhenEmpty_lastGenRequestRef:
  "lastGenRequestRef (clearWhenEmpty st) = lastGenRequestRef st"
  by (simp add: clearWhenEmpty_def)










lemma resume_frame:
  "articles (fst (resume k outcome st)) = articles st \<and>
   audioContextRef (fst (resume k outcome st)) = audioContextRef st \<and>
   (capturedTime (snd (resume k outcome st)) = None \<or>
    capturedTime (snd (resume k outcome st)) = capturedTime k)"
  by (cases k) (auto simp: afterSummarize_def afterSpeech_def catchBlock_def split: sum.splits)

lemma issuedInv_generate:
  assumes "issuedInv seen sys" "now \<notin> seen"
  shows "issuedInv (insert now seen) (appStep (Generate now) sys)"
proof -
  obtain st ps where sys: "sys = (st, ps)" by (cases sys)
  have step: "appStep (Generate now) sys =
          (st\<lparr> lastGenRequestRef := now, summaryText := None, audioBuffer := None,
                generationState := \<lparr> status = Summarizing, error = None \<rparr> \<rparr>,
           ps @ [AwaitSummarize now])"
    using assms(1) sys by (simp add: issuedInv_def handleGenerate_def)
  have old: "capturedTime (ps ! i) \<noteq> Some now" if "i < length ps" for i
  proof
    assume "capturedTime (ps ! i) = Some now"
    moreover have "ps ! i \<in> set ps" using that by simp
    ultimately have "now \<in> seen" using assms(1) sys by (auto simp: issuedInv_def)
    with assms(2) show False by simp
  qed
  show ?thesis
    unfolding step using assms(1) sys old
    by (auto simp: issuedInv_def nth_append)
qed

lemma issuedInv_settle:
  assumes "issuedInv seen sys"
  shows "issuedInv seen (appStep (Settle i outcome) sys)"
proof -
  obtain st ps where sys: "sys = (st, ps)" by (cases sys)
  show ?thesis
  proof (cases "i < length ps")
    case False
    then show ?thesis using assms sys by simp
  next
    case True
    obtain st' k where r: "resume (ps ! i) outcome st = (st', k)" by force
    have fr: "articles st' = articles st" "audioContextRef st' = audioContextRef st"
      "lastGenRequestRef st' = lastGenRequestRef st"
      "capturedTime k = None \<or> capturedTime k = capturedTime (ps ! i)"
      using resume_frame [of "ps ! i" outcome st] resume_lastGenRequestRef [of "ps ! i" outcome st] r
      by simp_all
    have a: "\<forall>k' \<in> set (ps[i := k]). \<forall>t. capturedTime k' = Some t \<longrightarrow> t \<in> seen"
    proof (intro ballI allI impI)
      fix k' t assume k': "k' \<in> set (ps[i := k])" and c: "capturedTime k' = Some t"
      from k' have "k' = k \<or> k' \<in> set ps" using set_update_subset_insert [of ps i k] by auto
      moreover have "ps ! i \<in> set ps" using True by simp
      ultimately show "t \<in> seen" using c fr(4) assms sys by (auto simp: issuedInv_def)
    qed
    have b: "capturedTime (ps[i := k] ! j) \<noteq> Some (lastGenRequestRef st')"
      if "Suc j < length ps" for j
    proof (cases "j = i")
      case True
      then show ?thesis using that fr(3,4) assms sys by (auto simp: issuedInv_def)
    next
      case False
      then show ?thesis using that fr(3) assms sys by (auto simp: issuedInv_def)
    qed
    show ?thesis using True r fr(1,2) a b assms sys by (simp add: issuedInv_def)
  qed
qed

lemma issuedInv_run:
  assumes "issuedInv seen sys" "\<forall>e \<in> set es. isGenerate e \<or> isSettle e"
    "distinct (generateTimes es)" "set (generateTimes es) \<inter> seen = {}"
  shows "\<exists>seen'. issuedInv seen' (appRun es sys)"
  using assms
proof (induction es arbitrary: seen sys)
  case Nil
  then show ?case by auto
next
  case (Cons e es)
  show ?case
  proof (cases e)
    case (Generate now)
    then have "issuedInv (insert now seen) (appStep e sys)"
      using Cons.prems issuedInv_generate [of seen sys now] by auto
    moreover have "set (generateTimes es) \<inter> insert now seen = {}"
      using Cons.prems Generate by auto
    ultimately show ?thesis
      using Cons.IH [of "insert now seen" "appStep e sys"] Cons.prems Generate by simp
  next
    case (Settle i outcome)
    then show ?thesis
      using Cons.IH [of seen "appStep e sys"] Cons.prems issuedInv_settle [of seen sys i outcome]
      by simp
  qed (use Cons.prems in auto)
qed

text \<open>The same for any run that mixes calls and completions, as long as no two calls
  read the same request time: the completion of any invocation but the one issued last
  leaves the state as it is.\<close>

lemma stale_completion_noop_interleaved:
  assumes "articles st \<noteq> []" "audioContextRef st"
    and "\<forall>e \<in> set es. isGenerate e \<or> isSettle e" and "distinct (generateTimes es)"
    and "Suc i < length (snd (appRun es (st, [])))"
  shows "fst (appStep (Settle i outcome) (appRun es (st, []))) = fst (appRun es (st, []))"
proof -
  have "issuedInv {} (st, [])"
    using assms(1,2) by (simp add: issuedInv_def)
  then obtain seen where inv: "issuedInv seen (appRun es (st, []))"
    using issuedInv_run [of "{}" "(st, [])" es] assms(3,4) by auto
  obtain st' ps where sys: "appRun es (st, []) = (st', ps)" by force
  have "capturedTime (ps ! i) \<noteq> Some (lastGenRequestRef st')"
    using inv sys assms(5) by (simp add: issuedInv_def)
  then show ?thesis
    using sys assms(5) resume_stale [of "ps ! i" st' outcome] by simp
qed

subsection \<open>The queue becoming empty\<close>

lemma fetch_failed_message:
  "getFriendlyErrorMessage (JsError ''fetch failed'') =
     ''Network connection error. Please check your internet and try again.''"
  by code_simp

text \<open>
  Claim C2, evaluated where it fails. A generation is issued at request time 1000 for a
  queue of one article, and the article is removed while the summarization is in
  flight. The effect on the queue length resets the state to idle but leaves
  \<open>lastGenRequestRef\<close> at 1000, so the invocation still counts as current: when its
  summarization succeeds, the summary is published and the state becomes generating
  audio; when the synthesis then succeeds, the buffer is published and the state becomes
  ready; and when the summarization fails, the state becomes the error state; all of it
  with the queue empty.
\<close>

theorem emptied_queue_request_still_publishes:
  "fst (appRun [Generate 1000, RemoveArticle ''a1''] (queuedApp, [])) =
     queuedApp\<lparr> articles := [], lastGenRequestRef := 1000 \<rparr> \<and>
   fst (appRun [Generate 1000, RemoveArticle ''a1'', Settle 0 (summaryResponse ''Good morning'')]
          (queuedApp, [])) =
     queuedApp\<lparr> articles := [], lastGenRequestRef := 1000,
                summaryText := Some ''Good morning'',
                generationState := \<lparr> status = GeneratingAudio, error = None \<rparr> \<rparr> \<and>
   fst (appRun [Generate 1000, RemoveArticle ''a1'', Settle 0 (summaryResponse ''Good morning''),
                Settle 0 (audioResponse ''AAD/fwCA'')] (queuedApp, [])) =
     queuedApp\<lparr> articles := [], lastGenRequestRef := 1000,
                summaryText := Some ''Good morning'',
                audioBuffer := Some \<lparr> numberOfChannels = 1, sampleRate = 24000,
                                         channelData = [[0, 32767 / 32768, - 1]] \<rparr>,
                generationState := \<lparr> status = Ready, error = None \<rparr> \<rparr> \<and>
   fst (appRun [Generate 1000, RemoveArticle ''a1'', Settle 0 (Inl (JsError ''fetch failed''))]
          (queuedApp, [])) =
     queuedApp\<lparr> articles := [], lastGenRequestRef := 1000,
                generationState := \<lparr> status = Error,
                  error = Some ''Network connection error. Please check your internet and try again.'' \<rparr> \<rparr>"
  using generateSpeech_example
  by (simp add: queuedApp_def initialApp_def handleGenerate_def afterSummarize_def
        afterSpeech_def catchBlock_def summarizeArticles_def getAIClient_def
        summaryResponse_def handleRemoveArticle_def clearWhenEmpty_def fetch_failed_message)

subsection \<open>Empty summaries\<close>

text \<open>
  Claim C3, as amended. For an invocation that is still current, with the API key
  present: when the summarization call itself fails, the state becomes the error state
  with the classified message, no summary is published and the invocation ends; when
  the call returns a response whose text is missing or empty, \<open>summarizeArticles\<close>
  returns a fixed apology sentence in its place, and that sentence is published as the
  summary and sent on to speech synthesis, the state becoming generating audio.
\<close>

theorem empty_summary_is_replaced_and_published:
  assumes "getAIClient (API_KEY st) = Inr ai" and "lastGenRequestRef st = t"
  shows "(response_text response = None \<or> response_text response = Some [] \<longrightarrow>
           afterSummarize t (Inr response) st =
             (st\<lparr> summaryText := Some ''I'm sorry, I couldn't generate a summary at this time.'',
                   generationState := \<lparr> status = GeneratingAudio, error = None \<rparr> \<rparr>,
              AwaitSpeech t ''I'm sorry, I couldn't generate a summary at this time.'')) \<and>
         afterSummarize t (Inl err) st =
             (st\<lparr> generationState :=
                    \<lparr> status = Error, error = Some (getFriendlyErrorMessage err) \<rparr> \<rparr>,
              Finished)"
  using assms by (auto simp: afterSummarize_def summarizeArticles_def catchBlock_def)

theorem empty_summary_is_replaced_and_published_witness:
  "getAIClient (API_KEY queuedApp) = Inr ''key'' \<and>
   lastGenRequestRef queuedApp = 0 \<and>
   afterSummarize 0 (Inr \<lparr> response_text = Some [], inlineData_data = None \<rparr>) queuedApp =
     (queuedApp\<lparr> summaryText := Some ''I'm sorry, I couldn't generate a summary at this time.'',
                 generationState := \<lparr> status = GeneratingAudio, error = None \<rparr> \<rparr>,
      AwaitSpeech 0 ''I'm sorry, I couldn't generate a summary at this time.'') \<and>
   afterSummarize 0 (Inl (JsError ''fetch failed'')) queuedApp =
     (queuedApp\<lparr> generationState := \<lparr> status = Error,
         error = Some (getFriendlyErrorMessage (JsError ''fetch failed'')) \<rparr> \<rparr>, Finished)"
proof -
  have h1: "getAIClient (API_KEY queuedApp) = Inr ''key''"
    by (simp add: queuedApp_def initialApp_def getAIClient_def)
  have h2: "lastGenRequestRef queuedApp = 0"
    by (simp add: queuedApp_def initialApp_def)
  show ?thesis
    using empty_summary_is_replaced_and_published
            [OF h1 h2, of "\<lparr> response_text = Some [], inlineData_data = None \<rparr>"
               "JsError ''fetch failed''"] h1 h2
    by simp
qed

text \<open>Claim C3 as stated fails: a summarization response without text does not lead to
  the error state; the apology sentence is published as the summary.\<close>

theorem missing_summary_text_not_an_error:
  "afterSummarize 1000 (Inr \<lparr> response_text = None, inlineData_data = None \<rparr>)
     (fst (handleGenerate 1000 queuedApp)) =
   (queuedApp\<lparr> lastGenRequestRef := 1000,
        summaryText := Some ''I'm sorry, I couldn't generate a summary at this time.'',
        generationState := \<lparr> status = GeneratingAudio, error = None \<rparr> \<rparr>,
    AwaitSpeech 1000 ''I'm sorry, I couldn't generate a summary at this time.'')"
  by (simp add: app_defs)

subsection \<open>A synthesis response without audio\<close>

lemma no_audio_message:
  "getFriendlyErrorMessage (JsError ''No audio data returned from Gemini.'') =
     ''Audio generation failed to return data. Please try again.''"
  by code_simp

text \<open>
  Claim C4. When the synthesis response carries no payload (the data is missing or
  empty), \<open>generateSpeech\<close> fails with its own "No audio data" error. If the invocation
  is still current, the state becomes the error state with the message of the "no audio
  data" class, which is neither the raw message nor the message of any other class; if
  the invocation is stale, the state is left as it is.
\<close>

theorem missing_audio_payload_is_classified:
  assumes "getAIClient (API_KEY st) = Inr ai"
    and "inlineData_data response = None \<or> inlineData_data response = Some []"
  shows "generateSpeech (API_KEY st) (Inr response) =
           Inl (JsError ''No audio data returned from Gemini.'') \<and>
         (lastGenRequestRef st = t \<longrightarrow>
            afterSpeech t (Inr response) st =
              st\<lparr> generationState := \<lparr> status = Error,
                     error = Some ''Audio generation failed to return data. Please try again.'' \<rparr> \<rparr>) \<and>
         (lastGenRequestRef st \<noteq> t \<longrightarrow> afterSpeech t (Inr response) st = st)"
proof -
  have gs: "generateSpeech (API_KEY st) (Inr response) =
              Inl (JsError ''No audio data returned from Gemini.'')"
    using assms by (auto simp: generateSpeech_def)
  show ?thesis
    unfolding afterSpeech_def gs catchBlock_def
    by (simp add: no_audio_message)
qed

theorem missing_audio_payload_is_classified_witness:
  "getAIClient (API_KEY queuedApp) = Inr ''key'' \<and>
   lastGenRequestRef queuedApp = 0 \<and>
   afterSpeech 0 (Inr \<lparr> response_text = None, inlineData_data = None \<rparr>) queuedApp =
     queuedApp\<lparr> generationState := \<lparr> status = Error,
        error = Some ''Audio generation failed to return data. Please try again.'' \<rparr> \<rparr> \<and>
   afterSpeech 7 (Inr \<lparr> response_text = None, inlineData_data = None \<rparr>) queuedApp = queuedApp"
proof -
  have h1: "getAIClient (API_KEY queuedApp) = Inr ''key''"
    by (simp add: queuedApp_def initialApp_def getAIClient_def)
  have h2: "lastGenRequestRef queuedApp = 0"
    by (simp add: queuedApp_def initialApp_def)
  have h3: "inlineData_data \<lparr> response_text = None, inlineData_data = None \<rparr> = None \<or>
            inlineData_data \<lparr> response_text = None, inlineData_data = None \<rparr> = Some []"
    by simp
  show ?thesis
    using missing_audio_payload_is_classified [OF h1 h3, of 0]
          missing_audio_payload_is_classified [OF h1 h3, of 7] h1 h2
    by simp
qed

end
